theory Spec2Isabelle
  imports Complex_Main "HOL-Library.Log_Nat" "HOL-Library.Multiset"
    "HOL-Library.Product_Lexorder" "HOL-Library.List_Lexorder"
begin

section \<open>Python values received from the Sleeper API\<close>

text \<open>
  The script \<^verbatim>\<open>main.py\<close> is duck-typed: it works on whatever \<^verbatim>\<open>response.json()\<close>
  returns. The values are modelled as they are in Python after JSON decoding: \<^verbatim>\<open>None\<close>,
  \<^verbatim>\<open>bool\<close>, unbounded \<^verbatim>\<open>int\<close>, \<^verbatim>\<open>float\<close>, \<^verbatim>\<open>str\<close>, \<^verbatim>\<open>list\<close> and \<^verbatim>\<open>dict\<close> with string keys
  (an association list in the order of the keys, each key once; a lookup reads the
  first binding). A \<^verbatim>\<open>str\<close> is a list of code points below 256.

  A \<^verbatim>\<open>float\<close> is an IEEE binary64 value: a finite value is the rational it denotes,
  with the negative zero, the two infinities and NaN apart. Every arithmetic operation
  is the exact operation on rationals followed by \<open>round64\<close>, rounding to the nearest
  representable value, ties to even.

  What the script prints on the console is not modelled.
\<close>

datatype pyfloat = Fin rat | NegZero | PInf | NInf | NaN

datatype json =
    JNull
  | JBool bool
  | JInt int
  | JFloat pyfloat
  | JStr string
  | JArr "json list"
  | JObj "(string \<times> json) list"

text \<open>The exceptions the script can meet, and the outcome of running a piece of it.
  \<open>Unmodelled\<close> marks the inputs on which the model says nothing (see \<open>list_sort\<close>).\<close>

datatype exn =
    RequestException
  | AttributeError
  | KeyError
  | TypeError
  | ValueError
  | OverflowError

datatype 'a outcome = Returns 'a | Raises exn | Unmodelled

fun bind :: "'a outcome \<Rightarrow> ('a \<Rightarrow> 'b outcome) \<Rightarrow> 'b outcome" where
  "bind (Returns x) f = f x"
| "bind (Raises e) f = Raises e"
| "bind Unmodelled f = Unmodelled"

section \<open>Binary64 arithmetic\<close>

definition pow2 :: "int \<Rightarrow> rat" where
  "pow2 k = (if 0 \<le> k then 2 ^ nat k else 1 / 2 ^ nat (- k))"

text \<open>\<open>ilog2 a\<close> is the integer \<open>e\<close> with \<open>2^e \<le> a < 2^(e+1)\<close>, for \<open>a > 0\<close>.\<close>

definition ilog2 :: "rat \<Rightarrow> int" where
  "ilog2 a = (if 1 \<le> a then bitlen \<lfloor>a\<rfloor> - 1 else - bitlen (\<lceil>1 / a\<rceil> - 1))"

definition round_half_even :: "rat \<Rightarrow> int" where
  "round_half_even q =
     (let f = \<lfloor>q\<rfloor>; r = q - of_int f
      in if r < 1 / 2 then f else if 1 / 2 < r then f + 1 else if even f then f else f + 1)"

text \<open>Rounding a positive rational: 53 significant bits for a normal value, a multiple
  of \<open>2^-1074\<close> for a subnormal one; a result of \<open>2^1024\<close> or more (its
  \<open>ilog2\<close> is 1024 or more) is an overflow, written \<open>None\<close>.\<close>

definition round_pos :: "rat \<Rightarrow> rat option" where
  "round_pos a =
     (let u = pow2 (max (ilog2 a - 52) (- 1074)); v = of_int (round_half_even (a / u)) * u
      in if 1024 \<le> ilog2 v then None else Some v)"

definition round64 :: "rat \<Rightarrow> pyfloat" where
  "round64 q =
     (if q = 0 then Fin 0
      else if 0 < q then (case round_pos q of None \<Rightarrow> PInf | Some v \<Rightarrow> Fin v)
      else (case round_pos (- q) of None \<Rightarrow> NInf
            | Some v \<Rightarrow> if v = 0 then NegZero else Fin (- v)))"

fun float_neg :: "pyfloat \<Rightarrow> pyfloat" where
  "float_neg (Fin q) = (if q = 0 then NegZero else Fin (- q))"
| "float_neg NegZero = Fin 0"
| "float_neg PInf = NInf"
| "float_neg NInf = PInf"
| "float_neg NaN = NaN"

text \<open>\<^verbatim>\<open>x + y\<close> on floats.\<close>

fun float_add :: "pyfloat \<Rightarrow> pyfloat \<Rightarrow> pyfloat" where
  "float_add NaN y = NaN"
| "float_add x NaN = NaN"
| "float_add PInf NInf = NaN"
| "float_add NInf PInf = NaN"
| "float_add PInf y = PInf"
| "float_add x PInf = PInf"
| "float_add NInf y = NInf"
| "float_add x NInf = NInf"
| "float_add NegZero y = y"
| "float_add x NegZero = x"
| "float_add (Fin a) (Fin b) = round64 (a + b)"

text \<open>\<^verbatim>\<open>y / 100\<close> for a float \<open>y\<close>: the int 100 converts to the float 100.0 exactly.\<close>

fun float_div100 :: "pyfloat \<Rightarrow> pyfloat" where
  "float_div100 (Fin q) = round64 (q / 100)"
| "float_div100 NegZero = NegZero"
| "float_div100 PInf = PInf"
| "float_div100 NInf = NInf"
| "float_div100 NaN = NaN"

text \<open>The comparisons \<^verbatim>\<open>x == y\<close> and \<^verbatim>\<open>x < y\<close> on floats: both zeros are equal, NaN is
  neither equal to nor less than anything.\<close>

fun float_eq :: "pyfloat \<Rightarrow> pyfloat \<Rightarrow> bool" where
  "float_eq NaN y = False"
| "float_eq x NaN = False"
| "float_eq NegZero y = (y = NegZero \<or> y = Fin 0)"
| "float_eq x NegZero = (x = Fin 0)"
| "float_eq x y = (x = y)"

fun float_lt :: "pyfloat \<Rightarrow> pyfloat \<Rightarrow> bool" where
  "float_lt NaN y = False"
| "float_lt x NaN = False"
| "float_lt x NInf = False"
| "float_lt NInf y = True"
| "float_lt PInf y = False"
| "float_lt x PInf = True"
| "float_lt NegZero NegZero = False"
| "float_lt NegZero (Fin b) = (0 < b)"
| "float_lt (Fin a) NegZero = (a < 0)"
| "float_lt (Fin a) (Fin b) = (a < b)"

section \<open>The built-in \<^verbatim>\<open>float()\<close>\<close>

text \<open>\<^verbatim>\<open>float(i)\<close> for an int rounds to the nearest float and raises \<^verbatim>\<open>OverflowError\<close>
  when the int is too large.\<close>

definition float_of_int :: "int \<Rightarrow> pyfloat outcome" where
  "float_of_int i =
     (case round64 (of_int i) of
        PInf \<Rightarrow> Raises OverflowError
      | NInf \<Rightarrow> Raises OverflowError
      | f \<Rightarrow> Returns f)"

text \<open>
  \<^verbatim>\<open>float(s)\<close> for a str: leading and trailing whitespace is dropped; an underscore may
  stand between two digits only; what is left is an optional sign followed by
  \<^verbatim>\<open>inf\<close>, \<^verbatim>\<open>infinity\<close> or \<^verbatim>\<open>nan\<close> in any case, or by a decimal literal (digits with an
  optional point, at least one digit, and an optional exponent). Anything else raises
  \<^verbatim>\<open>ValueError\<close>. A literal too large in magnitude gives an infinity, not an error.
\<close>

definition py_isspace :: "char \<Rightarrow> bool" where
  "py_isspace c = (let n = (of_char c :: nat) in (9 \<le> n \<and> n \<le> 13) \<or> n = 32 \<or> n = 133 \<or> n = 160)"

definition is_digit :: "char \<Rightarrow> bool" where
  "is_digit c = (let n = (of_char c :: nat) in 48 \<le> n \<and> n \<le> 57)"

definition to_lower :: "char \<Rightarrow> char" where
  "to_lower c = (let n = (of_char c :: nat) in if 65 \<le> n \<and> n \<le> 90 then char_of (n + 32) else c)"

definition strip :: "string \<Rightarrow> string" where
  "strip s = rev (dropWhile py_isspace (rev (dropWhile py_isspace s)))"

fun underscores_ok :: "char \<Rightarrow> string \<Rightarrow> bool" where
  "underscores_ok prev [] = (prev \<noteq> CHR ''_'')"
| "underscores_ok prev (c # cs) =
     ((if c = CHR ''_'' then is_digit prev
       else if prev = CHR ''_'' then is_digit c else True)
      \<and> underscores_ok c cs)"

definition digits_val :: "string \<Rightarrow> nat" where
  "digits_val ds = foldl (\<lambda>acc c. 10 * acc + (of_char c - 48)) 0 ds"

definition pow10 :: "int \<Rightarrow> rat" where
  "pow10 k = (if 0 \<le> k then 10 ^ nat k else 1 / 10 ^ nat (- k))"

text \<open>The exponent part: empty, or \<^verbatim>\<open>e\<close>/\<^verbatim>\<open>E\<close>, an optional sign and at least one digit.\<close>

definition exponent_digits :: "string \<Rightarrow> nat option" where
  "exponent_digits ds = (if ds \<noteq> [] \<and> list_all is_digit ds then Some (digits_val ds) else None)"

fun parse_exponent :: "string \<Rightarrow> int option" where
  "parse_exponent [] = Some 0"
| "parse_exponent (c # r) =
     (if c = CHR ''e'' \<or> c = CHR ''E'' then
        (case r of
           [] \<Rightarrow> None
         | s # ds \<Rightarrow>
             if s = CHR ''-'' then map_option (\<lambda>n. - int n) (exponent_digits ds)
             else if s = CHR ''+'' then map_option int (exponent_digits ds)
             else map_option int (exponent_digits r))
      else None)"

definition parse_decimal :: "string \<Rightarrow> pyfloat option" where
  "parse_decimal s =
     (let ip = takeWhile is_digit s;
          r1 = dropWhile is_digit s;
          has_point = (case r1 of [] \<Rightarrow> False | c # r \<Rightarrow> c = CHR ''.'');
          fp = (if has_point then takeWhile is_digit (tl r1) else []);
          r2 = (if has_point then dropWhile is_digit (tl r1) else r1)
      in if ip = [] \<and> fp = [] then None
         else (case parse_exponent r2 of
                 None \<Rightarrow> None
               | Some e \<Rightarrow>
                   Some (round64 (of_nat (digits_val (ip @ fp)) * pow10 (e - int (length fp))))))"

definition parse_unsigned :: "string \<Rightarrow> pyfloat option" where
  "parse_unsigned s =
     (let l = map to_lower s
      in if l = ''inf'' \<or> l = ''infinity'' then Some PInf
         else if l = ''nan'' then Some NaN
         else parse_decimal s)"

definition parse_signed :: "string \<Rightarrow> pyfloat option" where
  "parse_signed s =
     (case s of
        [] \<Rightarrow> None
      | c # r \<Rightarrow>
          if c = CHR ''-'' then map_option float_neg (parse_unsigned r)
          else if c = CHR ''+'' then parse_unsigned r
          else parse_unsigned s)"

definition float_of_str :: "string \<Rightarrow> pyfloat outcome" where
  "float_of_str s =
     (let t = strip s
      in if t = [] \<or> \<not> underscores_ok (CHR 0x00) t then Raises ValueError
         else (case parse_signed (filter (\<lambda>c. c \<noteq> CHR ''_'') t) of
                 None \<Rightarrow> Raises ValueError
               | Some f \<Rightarrow> Returns f))"

fun py_float :: "json \<Rightarrow> pyfloat outcome" where
  "py_float JNull = Raises TypeError"
| "py_float (JBool b) = Returns (Fin (if b then 1 else 0))"
| "py_float (JInt i) = float_of_int i"
| "py_float (JFloat f) = Returns f"
| "py_float (JStr s) = float_of_str s"
| "py_float (JArr xs) = Raises TypeError"
| "py_float (JObj kvs) = Raises TypeError"

section \<open>Attribute access, subscripts, iteration, truth values\<close>

text \<open>\<^verbatim>\<open>obj.get(key, default)\<close>: only a dict has the method.\<close>

definition py_get :: "json \<Rightarrow> string \<Rightarrow> json \<Rightarrow> json outcome" where
  "py_get obj k d =
     (case obj of
        JObj kvs \<Rightarrow> Returns (case map_of kvs k of None \<Rightarrow> d | Some v \<Rightarrow> v)
      | _ \<Rightarrow> Raises AttributeError)"

text \<open>\<^verbatim>\<open>obj[key]\<close> with a str key: \<^verbatim>\<open>KeyError\<close> on a dict without the key,
  \<^verbatim>\<open>TypeError\<close> on every other kind of value.\<close>

definition py_getitem :: "json \<Rightarrow> string \<Rightarrow> json outcome" where
  "py_getitem obj k =
     (case obj of
        JObj kvs \<Rightarrow> (case map_of kvs k of None \<Rightarrow> Raises KeyError | Some v \<Rightarrow> Returns v)
      | _ \<Rightarrow> Raises TypeError)"

text \<open>\<^verbatim>\<open>for x in obj\<close>: the items of a list, the keys of a dict, the characters of a str.\<close>

fun py_iter :: "json \<Rightarrow> json list outcome" where
  "py_iter (JArr xs) = Returns xs"
| "py_iter (JObj kvs) = Returns (map (\<lambda>kv. JStr (fst kv)) kvs)"
| "py_iter (JStr s) = Returns (map (\<lambda>c. JStr [c]) s)"
| "py_iter JNull = Raises TypeError"
| "py_iter (JBool b) = Raises TypeError"
| "py_iter (JInt i) = Raises TypeError"
| "py_iter (JFloat f) = Raises TypeError"

fun py_truthy :: "json \<Rightarrow> bool" where
  "py_truthy JNull = False"
| "py_truthy (JBool b) = b"
| "py_truthy (JInt i) = (i \<noteq> 0)"
| "py_truthy (JFloat f) = (f \<noteq> Fin 0 \<and> f \<noteq> NegZero)"
| "py_truthy (JStr s) = (s \<noteq> [])"
| "py_truthy (JArr xs) = (xs \<noteq> [])"
| "py_truthy (JObj kvs) = (kvs \<noteq> [])"

subsection \<open>Dicts keyed by values: the user index\<close>

text \<open>
  A list or a dict is not hashable. The other values are; two of them are the same key
  when \<^verbatim>\<open>==\<close> holds: numbers (bool, int, float) by their numeric value, strings by
  their characters, \<^verbatim>\<open>None\<close> with itself.
\<close>

fun hashable :: "json \<Rightarrow> bool" where
  "hashable (JArr xs) = False"
| "hashable (JObj kvs) = False"
| "hashable v = True"

fun num_val :: "json \<Rightarrow> pyfloat option" where
  "num_val (JBool b) = Some (Fin (if b then 1 else 0))"
| "num_val (JInt i) = Some (Fin (of_int i))"
| "num_val (JFloat f) = Some f"
| "num_val v = None"

definition scalar_eq :: "json \<Rightarrow> json \<Rightarrow> bool" where
  "scalar_eq a b =
     (case (num_val a, num_val b) of
        (Some x, Some y) \<Rightarrow> float_eq x y
      | (None, None) \<Rightarrow> a = b
      | _ \<Rightarrow> False)"

text \<open>The dict is the list of its insertions, newest first: a lookup finds the newest
  binding of an equal key, as an insertion overwrites the older one.\<close>

type_synonym pydict = "(json \<times> json) list"

fun dict_lookup :: "pydict \<Rightarrow> json \<Rightarrow> json option" where
  "dict_lookup [] k = None"
| "dict_lookup (kv # m) k = (if scalar_eq (fst kv) k then Some (snd kv) else dict_lookup m k)"

text \<open>\<^verbatim>\<open>k in d\<close> and \<^verbatim>\<open>d[k]\<close>.\<close>

definition dict_contains :: "pydict \<Rightarrow> json \<Rightarrow> bool outcome" where
  "dict_contains d k = (if hashable k then Returns (dict_lookup d k \<noteq> None) else Raises TypeError)"

definition dict_getitem :: "pydict \<Rightarrow> json \<Rightarrow> json outcome" where
  "dict_getitem d k =
     (if hashable k then (case dict_lookup d k of None \<Rightarrow> Raises KeyError | Some v \<Rightarrow> Returns v)
      else Raises TypeError)"

section \<open>\<^verbatim>\<open>fetch_sleeper_data\<close>\<close>

record standing =
  owner_name :: json
  team_name :: json
  wins :: json
  losses :: json
  ties :: json
  fpts :: pyfloat

record report =
  league_name :: json
  standings :: "standing list"

text \<open>An HTTP exchange, \<^verbatim>\<open>requests.get(url)\<close>, \<^verbatim>\<open>raise_for_status()\<close> and \<^verbatim>\<open>.json()\<close>:
  it raises a \<^verbatim>\<open>RequestException\<close> (a network fault, an HTTP error status, or a body that
  is not JSON, which \<^verbatim>\<open>requests\<close> reports as a subclass of it) or gives the decoded
  body. The network is a parameter of the function: a map from the URL to the result.\<close>

datatype http_result = RequestFails | JsonBody json

definition request :: "(string \<Rightarrow> http_result) \<Rightarrow> string \<Rightarrow> json outcome" where
  "request http url = (case http url of RequestFails \<Rightarrow> Raises RequestException | JsonBody j \<Rightarrow> Returns j)"

definition league_details_url :: "string \<Rightarrow> string" where
  "league_details_url league_id = ''https://api.sleeper.app/v1/league/'' @ league_id"

definition rosters_url :: "string \<Rightarrow> string" where
  "rosters_url league_id = ''https://api.sleeper.app/v1/league/'' @ league_id @ ''/rosters''"

definition users_url :: "string \<Rightarrow> string" where
  "users_url league_id = ''https://api.sleeper.app/v1/league/'' @ league_id @ ''/users''"

text \<open>\<^verbatim>\<open>{user['user_id']: user['display_name'] for user in users}\<close>: key, then value, then
  the insertion, which hashes the key.\<close>

definition user_pair :: "json \<Rightarrow> (json \<times> json) outcome" where
  "user_pair user =
     bind (py_getitem user ''user_id'') (\<lambda>k.
     bind (py_getitem user ''display_name'') (\<lambda>v.
     if hashable k then Returns (k, v) else Raises TypeError))"

fun user_map_loop :: "pydict \<Rightarrow> json list \<Rightarrow> pydict outcome" where
  "user_map_loop m [] = Returns m"
| "user_map_loop m (user # us) = bind (user_pair user) (\<lambda>kv. user_map_loop (kv # m) us)"

definition build_user_map :: "json \<Rightarrow> pydict outcome" where
  "build_user_map users = bind (py_iter users) (user_map_loop [])"

text \<open>Lines 53 to 59: the two conversions in order, the sum, and the handler for
  \<^verbatim>\<open>ValueError\<close> and \<^verbatim>\<open>TypeError\<close>. An \<^verbatim>\<open>OverflowError\<close> is not handled there.\<close>

definition fpts_sum :: "json \<Rightarrow> json \<Rightarrow> pyfloat outcome" where
  "fpts_sum fpts_raw fpts_decimal_raw =
     bind (py_float fpts_raw) (\<lambda>x.
     bind (py_float fpts_decimal_raw) (\<lambda>y.
     Returns (float_add x (float_div100 y))))"

definition compute_fpts :: "json \<Rightarrow> json \<Rightarrow> pyfloat outcome" where
  "compute_fpts fpts_raw fpts_decimal_raw =
     (case fpts_sum fpts_raw fpts_decimal_raw of
        Raises e \<Rightarrow> if e = ValueError \<or> e = TypeError then Returns (Fin 0) else Raises e
      | r \<Rightarrow> r)"

text \<open>The body of the loop over the rosters (lines 43 to 68): \<open>None\<close> when the roster
  is skipped, the entry appended otherwise.\<close>

definition roster_entry :: "pydict \<Rightarrow> json \<Rightarrow> standing option outcome" where
  "roster_entry user_map roster =
     bind (py_get roster ''owner_id'' JNull) (\<lambda>owner_id.
     if \<not> py_truthy owner_id then Returns None
     else
       bind (dict_contains user_map owner_id) (\<lambda>known.
       if \<not> known then Returns None
       else
         bind (dict_getitem user_map owner_id) (\<lambda>owner_name.
         bind (py_get roster ''metadata'' (JObj [])) (\<lambda>metadata.
         bind (py_get metadata ''team_name'' owner_name) (\<lambda>team_name.
         bind (py_get roster ''settings'' (JObj [])) (\<lambda>settings.
         bind (py_get settings ''wins'' (JInt 0)) (\<lambda>wins.
         bind (py_get settings ''losses'' (JInt 0)) (\<lambda>losses.
         bind (py_get settings ''ties'' (JInt 0)) (\<lambda>ties.
         bind (py_get settings ''fpts'' (JInt 0)) (\<lambda>fpts_raw.
         bind (py_get settings ''fpts_decimal'' (JInt 0)) (\<lambda>fpts_decimal_raw.
         bind (compute_fpts fpts_raw fpts_decimal_raw) (\<lambda>fpts.
         Returns (Some \<lparr>owner_name = owner_name, team_name = team_name, wins = wins,
                        losses = losses, ties = ties, fpts = fpts\<rparr>)))))))))))))"

fun roster_loop :: "pydict \<Rightarrow> standing list \<Rightarrow> json list \<Rightarrow> standing list outcome" where
  "roster_loop user_map league_standings [] = Returns league_standings"
| "roster_loop user_map league_standings (roster # rs) =
     bind (roster_entry user_map roster) (\<lambda>e.
     roster_loop user_map
       (case e of None \<Rightarrow> league_standings | Some t \<Rightarrow> league_standings @ [t]) rs)"

subsection \<open>\<^verbatim>\<open>league_standings.sort(key=lambda x: (x['wins'], x['fpts']), reverse=True)\<close>\<close>

text \<open>
  \<^verbatim>\<open>list.sort\<close> is modelled by its contract: it compares keys with \<^verbatim>\<open><\<close> only, it is
  stable also with \<^verbatim>\<open>reverse=True\<close>, and a comparison that raises ends the sort with that
  exception. Which pairs it compares is not part of the contract, so the model
  answers only where the outcome does not depend on it:
  \<^item> a list of fewer than two entries is returned without any comparison;
  \<^item> when all \<^verbatim>\<open>wins\<close> are numbers, or all are strings, or all are \<^verbatim>\<open>None\<close>, and no
    number is NaN, \<^verbatim>\<open><\<close> on the keys is a strict weak order and the result is the stable
    descending arrangement;
  \<^item> when the \<^verbatim>\<open>wins\<close> are of two or more of these kinds, no \<^verbatim>\<open><\<close> between two kinds
    exists and the sort raises \<^verbatim>\<open>TypeError\<close>;
  \<^item> with a NaN, a list or a dict among the keys the outcome is \<open>Unmodelled\<close>.
\<close>

datatype key_kind = KNull | KNum | KStr | KOther

fun wins_kind :: "json \<Rightarrow> key_kind" where
  "wins_kind JNull = KNull"
| "wins_kind (JBool b) = KNum"
| "wins_kind (JInt i) = KNum"
| "wins_kind (JFloat f) = (if f = NaN then KOther else KNum)"
| "wins_kind (JStr s) = KStr"
| "wins_kind (JArr xs) = KOther"
| "wins_kind (JObj kvs) = KOther"

text \<open>\<^verbatim>\<open>s < t\<close> on strings: lexicographic on the code points.\<close>

fun str_lt :: "string \<Rightarrow> string \<Rightarrow> bool" where
  "str_lt [] [] = False"
| "str_lt [] (y # ys) = True"
| "str_lt (x # xs) [] = False"
| "str_lt (x # xs) (y # ys) =
     (if (of_char x :: nat) < of_char y then True
      else if (of_char x :: nat) = of_char y then str_lt xs ys
      else False)"

text \<open>\<^verbatim>\<open>a < b\<close> on values: numbers with numbers, strings with strings; lists compare
  item by item, which is left out; every other pair raises \<^verbatim>\<open>TypeError\<close>.\<close>

definition py_lt :: "json \<Rightarrow> json \<Rightarrow> bool outcome" where
  "py_lt a b =
     (case (num_val a, num_val b) of
        (Some x, Some y) \<Rightarrow> Returns (float_lt x y)
      | _ \<Rightarrow>
          (case (a, b) of
             (JStr s, JStr t) \<Rightarrow> Returns (str_lt s t)
           | (JArr xs, JArr ys) \<Rightarrow> Unmodelled
           | _ \<Rightarrow> Raises TypeError))"

definition sort_key :: "standing \<Rightarrow> json \<times> pyfloat" where
  "sort_key x = (wins x, fpts x)"

text \<open>\<^verbatim>\<open><\<close> on two key tuples: the first components that are not \<^verbatim>\<open>==\<close> decide.\<close>

definition key_lt :: "json \<times> pyfloat \<Rightarrow> json \<times> pyfloat \<Rightarrow> bool outcome" where
  "key_lt a b =
     (if scalar_eq (fst a) (fst b)
      then (if float_eq (snd a) (snd b) then Returns False else Returns (float_lt (snd a) (snd b)))
      else py_lt (fst a) (fst b))"

definition key_less :: "standing \<Rightarrow> standing \<Rightarrow> bool" where
  "key_less x y = (key_lt (sort_key x) (sort_key y) = Returns True)"

text \<open>The stable descending arrangement: an entry goes behind the entries with a greater
  key and in front of the later entries with an equal or smaller key.\<close>

fun insert_desc :: "standing \<Rightarrow> standing list \<Rightarrow> standing list" where
  "insert_desc x [] = [x]"
| "insert_desc x (y # ys) = (if key_less x y then y # insert_desc x ys else x # y # ys)"

definition stable_sort_desc :: "standing list \<Rightarrow> standing list" where
  "stable_sort_desc xs = foldr insert_desc xs []"

definition list_sort :: "standing list \<Rightarrow> standing list outcome" where
  "list_sort xs =
     (if length xs < 2 then Returns xs
      else if list_ex (\<lambda>x. wins_kind (wins x) = KOther \<or> fpts x = NaN) xs then Unmodelled
      else if list_all (\<lambda>x. wins_kind (wins x) = wins_kind (wins (hd xs))) xs
           then Returns (stable_sort_desc xs)
      else Raises TypeError)"

subsection \<open>The function\<close>

text \<open>The body of the \<^verbatim>\<open>try\<close> block, lines 25 to 73.\<close>

definition fetch_body :: "(string \<Rightarrow> http_result) \<Rightarrow> string \<Rightarrow> report outcome" where
  "fetch_body http league_id =
     bind (request http (league_details_url league_id)) (\<lambda>details.
     bind (py_get details ''name'' (JStr ''Your Dynasty League'')) (\<lambda>league_name.
     bind (request http (rosters_url league_id)) (\<lambda>rosters.
     bind (request http (users_url league_id)) (\<lambda>users.
     bind (build_user_map users) (\<lambda>user_map.
     bind (py_iter rosters) (\<lambda>rs.
     bind (roster_loop user_map [] rs) (\<lambda>league_standings.
     bind (list_sort league_standings) (\<lambda>sorted.
     Returns \<lparr>league_name = league_name, standings = sorted\<rparr>))))))))"

text \<open>The handler of line 75 catches \<^verbatim>\<open>RequestException\<close> and nothing else. The result
  \<open>None\<close> is Python's \<^verbatim>\<open>None\<close>.\<close>

definition fetch_sleeper_data :: "(string \<Rightarrow> http_result) \<Rightarrow> string \<Rightarrow> report option outcome" where
  "fetch_sleeper_data http league_id =
     (case fetch_body http league_id of
        Returns r \<Rightarrow> Returns (Some r)
      | Raises e \<Rightarrow> if e = RequestException then Returns None else Raises e
      | Unmodelled \<Rightarrow> Unmodelled)"

section \<open>\<^verbatim>\<open>generate_site_update_summary\<close>\<close>

subsection \<open>Formatting inside the f-strings\<close>

text \<open>The decimal digits of an int that is not negative.\<close>

definition digit_char :: "int \<Rightarrow> char" where
  "digit_char d = char_of (48 + d)"

function decimal :: "int \<Rightarrow> string" where
  "decimal n = (if n < 10 then [digit_char n] else decimal (n div 10) @ [digit_char (n mod 10)])"
  by pat_completeness auto
termination
  by (relation "measure nat") auto

declare decimal.simps [simp del]

definition str_of_int :: "int \<Rightarrow> string" where
  "str_of_int i = (if i < 0 then CHR ''-'' # decimal (- i) else decimal i)"

text \<open>\<^verbatim>\<open>{v}\<close> in an f-string is \<^verbatim>\<open>str(v)\<close>. The text of a float, a list or a dict is the
  interpreter's \<^verbatim>\<open>repr\<close>, a parameter here. An int is within the interpreter's limit
  on the digits of a conversion, as every int that the JSON decoder has produced is.\<close>

definition py_str :: "(json \<Rightarrow> string) \<Rightarrow> json \<Rightarrow> string" where
  "py_str repr v =
     (case v of
        JStr s \<Rightarrow> s
      | JInt i \<Rightarrow> str_of_int i
      | JNull \<Rightarrow> ''None''
      | JBool b \<Rightarrow> (if b then ''True'' else ''False'')
      | _ \<Rightarrow> repr v)"

text \<open>\<^verbatim>\<open>{x:.2f}\<close> for a float: the exact value rounded to two decimals, ties to even.\<close>

definition two_decimals :: "rat \<Rightarrow> string" where
  "two_decimals a =
     (let n = round_half_even (a * 100)
      in decimal (n div 100) @ ''.'' @ [digit_char (n mod 100 div 10), digit_char (n mod 10)])"

fun format_2f :: "pyfloat \<Rightarrow> string" where
  "format_2f (Fin q) = (if q < 0 then CHR ''-'' # two_decimals (- q) else two_decimals q)"
| "format_2f NegZero = ''-0.00''"
| "format_2f PInf = ''inf''"
| "format_2f NInf = ''-inf''"
| "format_2f NaN = ''nan''"

subsection \<open>The prompt and the call\<close>

text \<open>The generative service is a parameter of the function. A call of it, and a
  reading of the response, gives its value or raises an exception \<open>e\<close> of class
  \<^verbatim>\<open>Exception\<close>, which the model keeps as \<^verbatim>\<open>str(e)\<close>: \<^verbatim>\<open>model.generate_content(prompt)\<close>
  gives a response or raises, and the property \<^verbatim>\<open>response.text\<close> gives the text or
  raises (a response without text). The league data are \<^verbatim>\<open>None\<close> or a report as
  \<^verbatim>\<open>fetch_sleeper_data\<close> builds it, with all six fields in every entry and a float as
  \<open>fpts\<close>.\<close>

datatype 'a attempt = Done 'a | Fault string

datatype response = Response "string attempt"

fun response_text :: "response \<Rightarrow> string attempt" where
  "response_text (Response t) = t"

definition prompt_head :: "(json \<Rightarrow> string) \<Rightarrow> json \<Rightarrow> string \<Rightarrow> string list" where
  "prompt_head repr lname season =
     [''You are an AI assistant for a fantasy football dynasty league website. '',
      ''Your task is to generate a concise, engaging summary of the current league standings based on the provided data. '',
      ''Highlight top performers, interesting facts, or key takeaways that would be useful for a website update. '',
      ''The data is for the '' @ py_str repr lname @ '' league for the '' @ season @ '' season. '',
      ''Here are the current standings:'' @ [CHR 0x0A, CHR 0x0A]]"

definition team_line :: "(json \<Rightarrow> string) \<Rightarrow> standing \<Rightarrow> string" where
  "team_line repr team =
     ''- '' @ py_str repr (team_name team) @ '' ('' @ py_str repr (owner_name team) @ ''): ''
       @ py_str repr (wins team) @ ''-'' @ py_str repr (losses team)
       @ '' ('' @ py_str repr (ties team) @ '' ties), '' @ format_2f (fpts team) @ '' Fpts''
       @ [CHR 0x0A]"

text \<open>The loop of lines 95 to 98 appends one part for each team.\<close>

fun append_teams :: "(json \<Rightarrow> string) \<Rightarrow> string list \<Rightarrow> standing list \<Rightarrow> string list" where
  "append_teams repr prompt_parts [] = prompt_parts"
| "append_teams repr prompt_parts (team # ts) =
     append_teams repr (prompt_parts @ [team_line repr team]) ts"

definition prompt_tail :: "string" where
  "prompt_tail =
     CHR 0x0A # ''Generate the summary in a friendly, engaging tone, suitable for a fan-focused website. ''
       @ ''Keep it under 200 words.''"

definition build_prompt :: "(json \<Rightarrow> string) \<Rightarrow> json \<Rightarrow> string \<Rightarrow> standing list \<Rightarrow> string" where
  "build_prompt repr lname season league_standings =
     concat (append_teams repr (prompt_head repr lname season) league_standings @ [prompt_tail])"

text \<open>Lines 109 and 110, the body of the \<^verbatim>\<open>try\<close> block.\<close>

definition call_service :: "(string \<Rightarrow> response attempt) \<Rightarrow> string \<Rightarrow> string attempt" where
  "call_service generate_content prompt =
     (case generate_content prompt of
        Done response \<Rightarrow> response_text response
      | Fault e \<Rightarrow> Fault e)"

text \<open>The function returns its string together with the prompts it sent to the
  generative service, in order: the second component is empty when the service was
  not called.\<close>

definition generate_site_update_summary ::
  "(json \<Rightarrow> string) \<Rightarrow> (string \<Rightarrow> response attempt) \<Rightarrow> report option \<Rightarrow> string
     \<Rightarrow> string \<times> string list" where
  "generate_site_update_summary repr generate_content league_data_obj season =
     (case league_data_obj of
        None \<Rightarrow> (''Could not fetch league data to generate a summary.'', [])
      | Some d \<Rightarrow>
          if standings d = [] then (''Could not fetch league data to generate a summary.'', [])
          else
            let prompt = build_prompt repr (league_name d) season (standings d)
            in (case call_service generate_content prompt of
                  Done t \<Rightarrow> (t, [prompt])
                | Fault e \<Rightarrow> (''Error generating content with GenAI: '' @ e, [prompt])))"

section \<open>Notions used to state the properties\<close>

text \<open>Reading a dict without side conditions: \<open>field obj k\<close> is the value under \<open>k\<close>
  when \<open>obj\<close> is a dict that has the key, and \<open>get_or\<close> adds the default of
  \<^verbatim>\<open>.get\<close>.\<close>

definition is_dict :: "json \<Rightarrow> bool" where
  "is_dict v = (case v of JObj kvs \<Rightarrow> True | _ \<Rightarrow> False)"

definition field :: "json \<Rightarrow> string \<Rightarrow> json option" where
  "field obj k = (case obj of JObj kvs \<Rightarrow> map_of kvs k | _ \<Rightarrow> None)"

definition get_or :: "json \<Rightarrow> string \<Rightarrow> json \<Rightarrow> json" where
  "get_or obj k d = (case field obj k of None \<Rightarrow> d | Some v \<Rightarrow> v)"

text \<open>The entries the loop appends for a list of rosters, in the order of the rosters.\<close>

definition entries_of :: "pydict \<Rightarrow> json list \<Rightarrow> standing list" where
  "entries_of user_map rs =
     concat (map (\<lambda>r. case roster_entry user_map r of Returns (Some t) \<Rightarrow> [t] | _ \<Rightarrow> []) rs)"


text \<open>\<^verbatim>\<open>x >= 0\<close> on a float.\<close>

fun float_ge0 :: "pyfloat \<Rightarrow> bool" where
  "float_ge0 (Fin q) = (0 \<le> q)"
| "float_ge0 NegZero = True"
| "float_ge0 PInf = True"
| "float_ge0 NInf = False"
| "float_ge0 NaN = False"

text \<open>The order of the standings in Python's terms: \<open>a\<close> may stand before \<open>b\<close> when it
  has more wins, or equal wins and at least as many points; \<open>same_key\<close> is \<^verbatim>\<open>==\<close> on
  the two key tuples.\<close>

definition ranks_before :: "standing \<Rightarrow> standing \<Rightarrow> bool" where
  "ranks_before a b =
     (py_lt (wins b) (wins a) = Returns True
      \<or> (scalar_eq (wins a) (wins b)
          \<and> (float_lt (fpts b) (fpts a) \<or> float_eq (fpts a) (fpts b))))"

definition same_key :: "standing \<Rightarrow> standing \<Rightarrow> bool" where
  "same_key a b = (scalar_eq (wins a) (wins b) \<and> float_eq (fpts a) (fpts b))"

text \<open>For the proofs, keys of one kind are ranked in a linear order: a float by
  (sign of infinity, value), \<^verbatim>\<open>wins\<close> by its number or its code points.\<close>

fun frank :: "pyfloat \<Rightarrow> int \<times> rat" where
  "frank (Fin q) = (0, q)"
| "frank NegZero = (0, 0)"
| "frank PInf = (1, 0)"
| "frank NInf = (- 1, 0)"
| "frank NaN = (2, 0)"

definition wrank :: "json \<Rightarrow> (int \<times> rat) \<times> nat list" where
  "wrank w =
     (case num_val w of
        Some x \<Rightarrow> (frank x, [])
      | None \<Rightarrow> (case w of JStr s \<Rightarrow> ((0, 0), map of_char s) | _ \<Rightarrow> ((0, 0), [])))"

definition rank :: "standing \<Rightarrow> ((int \<times> rat) \<times> nat list) \<times> (int \<times> rat)" where
  "rank x = (wrank (wins x), frank (fpts x))"

definition sortable_as :: "key_kind \<Rightarrow> standing \<Rightarrow> bool" where
  "sortable_as k x = (wins_kind (wins x) = k \<and> k \<noteq> KOther \<and> fpts x \<noteq> NaN)"

subsection \<open>The prompt as the specification words it\<close>



subsection \<open>Responses of the documented shape\<close>






section \<open>Example leagues\<close>

text \<open>A server for one league: the three URLs of the league answer, every other URL
  fails.\<close>

definition serve ::
  "string \<Rightarrow> http_result \<Rightarrow> http_result \<Rightarrow> http_result \<Rightarrow> string \<Rightarrow> http_result" where
  "serve league_id details rosters users url =
     (if url = league_details_url league_id then details
      else if url = rosters_url league_id then rosters
      else if url = users_url league_id then users
      else RequestFails)"

definition mk_user :: "string \<Rightarrow> string \<Rightarrow> json" where
  "mk_user uid name = JObj [(''user_id'', JStr uid), (''display_name'', JStr name)]"

definition mk_roster :: "string \<Rightarrow> json \<Rightarrow> json \<Rightarrow> json \<Rightarrow> json" where
  "mk_roster uid w f d =
     JObj [(''owner_id'', JStr uid),
           (''settings'', JObj [(''wins'', w), (''fpts'', f), (''fpts_decimal'', d)])]"

definition mk_entry :: "string \<Rightarrow> string \<Rightarrow> json \<Rightarrow> pyfloat \<Rightarrow> standing" where
  "mk_entry owner team w f =
     \<lparr>owner_name = JStr owner, team_name = JStr team, wins = w, losses = JInt 0,
      ties = JInt 0, fpts = f\<rparr>"

definition abc_details :: json where
  "abc_details = JObj [(''name'', JStr ''Dynasty'')]"

definition abc_users :: json where
  "abc_users = JArr [mk_user ''1'' ''Ann'', mk_user ''2'' ''Bob'', mk_user ''3'' ''Cy'']"

definition abc_user_map :: pydict where
  "abc_user_map = [(JStr ''3'', JStr ''Cy''), (JStr ''2'', JStr ''Bob''), (JStr ''1'', JStr ''Ann'')]"

definition abc_http :: "json list \<Rightarrow> string \<Rightarrow> http_result" where
  "abc_http rs = serve ''L'' (JsonBody abc_details) (JsonBody (JArr rs)) (JsonBody abc_users)"

text \<open>The three teams of the specification's example: A with 10 wins and 1000.5 points,
  B with 10 wins and 1200.0 points, C with 9 wins and 2000.0 points.\<close>

definition roster_A :: json where "roster_A = mk_roster ''1'' (JInt 10) (JInt 1000) (JInt 50)"
definition roster_B :: json where "roster_B = mk_roster ''2'' (JInt 10) (JInt 1200) (JInt 0)"
definition roster_C :: json where "roster_C = mk_roster ''3'' (JInt 9) (JInt 2000) (JInt 0)"

definition entry_A :: standing where "entry_A = mk_entry ''Ann'' ''Ann'' (JInt 10) (Fin (2001 / 2))"
definition entry_B :: standing where "entry_B = mk_entry ''Bob'' ''Bob'' (JInt 10) (Fin 1200)"
definition entry_C :: standing where "entry_C = mk_entry ''Cy'' ''Cy'' (JInt 9) (Fin 2000)"



definition abc_report :: report where
  "abc_report = \<lparr>league_name = JStr ''Dynasty'', standings = [entry_B, entry_A, entry_C]\<rparr>"

text \<open>A league with a named team, a team whose \<^verbatim>\<open>team_name\<close> is null, a score that is
  not a number, a roster of an unknown owner and a roster without owner.\<close>

definition roster_named :: json where
  "roster_named =
     JObj [(''owner_id'', JStr ''1''), (''metadata'', JObj [(''team_name'', JStr ''Aces'')]),
           (''settings'', JObj [(''wins'', JInt 10), (''fpts'', JInt 1000), (''fpts_decimal'', JInt 50)])]"

definition roster_bad_score :: json where
  "roster_bad_score =
     JObj [(''owner_id'', JStr ''2''),
           (''settings'', JObj [(''wins'', JInt 10), (''fpts'', JStr ''abc''), (''fpts_decimal'', JInt 7)])]"

definition roster_null_name :: json where
  "roster_null_name =
     JObj [(''owner_id'', JStr ''3''), (''metadata'', JObj [(''team_name'', JNull)]),
           (''settings'', JObj [(''wins'', JInt 9), (''fpts'', JInt 2000)])]"

definition roster_stranger :: json where
  "roster_stranger = JObj [(''owner_id'', JStr ''9''), (''settings'', JObj [(''wins'', JInt 12)])]"

definition roster_vacant :: json where
  "roster_vacant = JObj [(''owner_id'', JNull), (''settings'', JObj [(''wins'', JInt 11)])]"

definition mixed_rosters :: "json list" where
  "mixed_rosters = [roster_stranger, roster_null_name, roster_bad_score, roster_vacant, roster_named]"

definition entry_named :: standing where
  "entry_named = mk_entry ''Ann'' ''Aces'' (JInt 10) (Fin (2001 / 2))"

definition entry_bad_score :: standing where
  "entry_bad_score = mk_entry ''Bob'' ''Bob'' (JInt 10) (Fin 0)"

definition entry_null_name :: standing where
  "entry_null_name = (mk_entry ''Cy'' ''Cy'' (JInt 9) (Fin 2000))\<lparr>team_name := JNull\<rparr>"

definition mixed_report :: report where
  "mixed_report =
     \<lparr>league_name = JStr ''Dynasty'', standings = [entry_named, entry_bad_score, entry_null_name]\<rparr>"

text \<open>A roster whose \<^verbatim>\<open>settings\<close> have no \<^verbatim>\<open>fpts\<close> but 50 hundredths.\<close>

definition roster_half :: json where
  "roster_half = JObj [(''owner_id'', JStr ''1''), (''settings'', JObj [(''fpts_decimal'', JInt 50)])]"




text \<open>Two teams whose \<^verbatim>\<open>wins\<close> are the strings "9" and "10".\<close>

definition roster_s10 :: json where "roster_s10 = mk_roster ''1'' (JStr ''10'') (JInt 1000) (JInt 0)"
definition roster_s9 :: json where "roster_s9 = mk_roster ''2'' (JStr ''9'') (JInt 900) (JInt 0)"

text \<open>A generative service whose call fails, one whose response has no text, and one
  that answers.\<close>

definition failing_service :: "string \<Rightarrow> response attempt" where
  "failing_service prompt = Fault ''quota exceeded''"

definition blocked_service :: "string \<Rightarrow> response attempt" where
  "blocked_service prompt = Done (Response (Fault ''no valid part''))"

definition echo_service :: "string \<Rightarrow> response attempt" where
  "echo_service prompt = Done (Response (Done ''A fine season.''))"

definition no_repr :: "json \<Rightarrow> string" where
  "no_repr v = ''?''"

section \<open>Auxiliary facts\<close>

subsection \<open>Outcomes\<close>

lemma bind_Returns_iff: "bind m f = Returns y \<longleftrightarrow> (\<exists>x. m = Returns x \<and> f x = Returns y)"
  by (cases m) auto

lemma py_get_Returns: "py_get obj k d = Returns v \<longleftrightarrow> is_dict obj \<and> v = get_or obj k d"
  by (auto simp: py_get_def is_dict_def get_or_def field_def split: json.splits)


lemma dict_contains_Returns:
  "dict_contains m k = Returns b \<longleftrightarrow> hashable k \<and> b = (dict_lookup m k \<noteq> None)"
  by (auto simp: dict_contains_def)

lemma dict_getitem_Returns:
  "dict_getitem m k = Returns v \<longleftrightarrow> hashable k \<and> dict_lookup m k = Some v"
  by (auto simp: dict_getitem_def split: option.splits)

subsection \<open>The score\<close>

text \<open>Some values of the float model, as the interpreter gives them: 0.07 and 0.05 are
  the nearest binary64 values, \<open>2^53 + 1\<close> rounds to even.\<close>

lemma float_samples:
  "round64 (7 / 100) = Fin (1261007895663739 / 2 ^ 54)"
  "float_of_int (2 ^ 53 + 1) = Returns (Fin (2 ^ 53))"
  "float_of_str '' 12.5 '' = Returns (Fin (25 / 2))"
  "float_of_str ''1_000'' = Returns (Fin 1000)"
  "float_of_str ''5e-2'' = Returns (Fin (3602879701896397 / 2 ^ 56))"
  "float_of_str ''-0'' = Returns NegZero"
  "float_of_str ''nan'' = Returns NaN"
  "float_of_str ''abc'' = Raises ValueError"
  "float_of_str [] = Raises ValueError"
  "float_add (Fin 1000) (float_div100 (Fin 50)) = Fin (2001 / 2)"
  by code_simp+

lemma py_float_cases:
  "(\<exists>x. py_float v = Returns x) \<or> py_float v = Raises ValueError
     \<or> py_float v = Raises TypeError \<or> py_float v = Raises OverflowError"
  by (cases v)
     (auto simp: float_of_int_def float_of_str_def Let_def split: pyfloat.splits option.splits)

lemma compute_fpts_Returns:
  "compute_fpts a b = Returns f \<longleftrightarrow>
     (case py_float a of
        Returns x \<Rightarrow>
          (case py_float b of
             Returns y \<Rightarrow> f = float_add x (float_div100 y)
           | Raises e \<Rightarrow> e \<noteq> OverflowError \<and> f = Fin 0
           | Unmodelled \<Rightarrow> False)
      | Raises e \<Rightarrow> e \<noteq> OverflowError \<and> f = Fin 0
      | Unmodelled \<Rightarrow> False)"
  using py_float_cases [of a] py_float_cases [of b]
  by (auto simp: compute_fpts_def fpts_sum_def split: outcome.splits)

lemma pow2_pos: "0 < pow2 k"
  by (simp add: pow2_def)

lemma round_half_even_nonneg: "0 \<le> q \<Longrightarrow> 0 \<le> round_half_even q"
  by (auto simp: round_half_even_def Let_def)

lemma round_pos_nonneg: "0 \<le> a \<Longrightarrow> round_pos a = Some v \<Longrightarrow> 0 \<le> v"
  using pow2_pos [of "max (ilog2 a - 52) (- 1074)"]
  by (auto simp: round_pos_def Let_def split: if_splits intro!: mult_nonneg_nonneg round_half_even_nonneg)

lemma round64_ge0: "0 \<le> q \<Longrightarrow> float_ge0 (round64 q)"
  by (auto simp: round64_def split: option.splits dest: round_pos_nonneg [rotated])


lemma float_div100_ge0: "float_ge0 y \<Longrightarrow> float_ge0 (float_div100 y)"
  by (cases y) (simp_all add: round64_ge0)

lemma float_add_ge0: "float_ge0 x \<Longrightarrow> float_ge0 y \<Longrightarrow> float_ge0 (float_add x y)"
  by (cases x; cases y) (simp_all add: round64_ge0)







subsection \<open>The loop over the rosters\<close>

lemma roster_entry_Some:
  "roster_entry um r = Returns (Some e) \<longleftrightarrow>
     is_dict r \<and> py_truthy (get_or r ''owner_id'' JNull) \<and> hashable (get_or r ''owner_id'' JNull) \<and>
     dict_lookup um (get_or r ''owner_id'' JNull) = Some (owner_name e) \<and>
     is_dict (get_or r ''metadata'' (JObj [])) \<and>
     team_name e = get_or (get_or r ''metadata'' (JObj [])) ''team_name'' (owner_name e) \<and>
     is_dict (get_or r ''settings'' (JObj [])) \<and>
     wins e = get_or (get_or r ''settings'' (JObj [])) ''wins'' (JInt 0) \<and>
     losses e = get_or (get_or r ''settings'' (JObj [])) ''losses'' (JInt 0) \<and>
     ties e = get_or (get_or r ''settings'' (JObj [])) ''ties'' (JInt 0) \<and>
     compute_fpts (get_or (get_or r ''settings'' (JObj [])) ''fpts'' (JInt 0))
                  (get_or (get_or r ''settings'' (JObj [])) ''fpts_decimal'' (JInt 0)) = Returns (fpts e)"
  by (cases e)
     (auto simp: roster_entry_def bind_Returns_iff py_get_Returns dict_contains_Returns
        dict_getitem_Returns)



lemma set_entries_of:
  "set (entries_of um rs) = {e. \<exists>r \<in> set rs. roster_entry um r = Returns (Some e)}"
  by (auto simp: entries_of_def split: outcome.splits option.splits)


lemma roster_loop_Returns:
  "roster_loop um acc rs = Returns out \<Longrightarrow>
   out = acc @ entries_of um rs \<and> (\<forall>r \<in> set rs. \<exists>x. roster_entry um r = Returns x)"
proof (induction rs arbitrary: acc)
  case Nil
  then show ?case by (simp add: entries_of_def)
next
  case (Cons r rs)
  from Cons.prems obtain e where e: "roster_entry um r = Returns e"
    and rest: "roster_loop um (case e of None \<Rightarrow> acc | Some t \<Rightarrow> acc @ [t]) rs = Returns out"
    by (auto simp: bind_Returns_iff)
  from Cons.IH [OF rest] e show ?case
    by (cases e) (auto simp: entries_of_def)
qed


subsection \<open>The user index\<close>




subsection \<open>The function as a whole\<close>

lemma fetch_body_Returns:
  "fetch_body http lid = Returns rep \<longleftrightarrow>
   (\<exists>details rosters users um rs.
      http (league_details_url lid) = JsonBody details \<and>
      py_get details ''name'' (JStr ''Your Dynasty League'') = Returns (league_name rep) \<and>
      http (rosters_url lid) = JsonBody rosters \<and>
      http (users_url lid) = JsonBody users \<and>
      build_user_map users = Returns um \<and>
      py_iter rosters = Returns rs \<and>
      roster_loop um [] rs = Returns (entries_of um rs) \<and>
      list_sort (entries_of um rs) = Returns (standings rep))"
  (is "?L = ?R")
proof
  assume ?L
  then show ?R
    apply (simp add: fetch_body_def bind_Returns_iff request_def split: http_result.splits)
    apply (elim exE conjE)
    apply (frule roster_loop_Returns)
    apply auto
    done
next
  assume ?R
  then show ?L
    by (auto simp: fetch_body_def request_def)
qed

lemma fetch_Some_iff:
  "fetch_sleeper_data http lid = Returns (Some rep) \<longleftrightarrow> fetch_body http lid = Returns rep"
  by (auto simp: fetch_sleeper_data_def split: outcome.splits)

text \<open>What a returned report says about the run, with the responses named.\<close>

lemma fetch_Some_named:
  assumes "fetch_sleeper_data http lid = Returns (Some rep)"
    and "http (rosters_url lid) = JsonBody rosters" and "py_iter rosters = Returns rs"
    and "http (users_url lid) = JsonBody users" and "build_user_map users = Returns um"
  shows "roster_loop um [] rs = Returns (entries_of um rs)"
    and "list_sort (entries_of um rs) = Returns (standings rep)"
    and "\<forall>r \<in> set rs. \<exists>x. roster_entry um r = Returns x"
proof -
  from assms show 1: "roster_loop um [] rs = Returns (entries_of um rs)"
    and "list_sort (entries_of um rs) = Returns (standings rep)"
    by (auto simp: fetch_Some_iff fetch_body_Returns)
  from roster_loop_Returns [OF 1] show "\<forall>r \<in> set rs. \<exists>x. roster_entry um r = Returns x"
    by simp
qed

subsection \<open>The sort\<close>

lemma float_lt_frank: "x \<noteq> NaN \<Longrightarrow> y \<noteq> NaN \<Longrightarrow> float_lt x y \<longleftrightarrow> frank x < frank y"
  by (cases x; cases y) auto

lemma float_eq_frank: "x \<noteq> NaN \<Longrightarrow> y \<noteq> NaN \<Longrightarrow> float_eq x y \<longleftrightarrow> frank x = frank y"
  by (cases x; cases y) auto

lemma str_lt_lex: "str_lt s t \<longleftrightarrow> map of_char s < (map of_char t :: nat list)"
  by (induction s t rule: str_lt.induct) auto

lemma map_of_char_inj: "map of_char s = (map of_char t :: nat list) \<longleftrightarrow> s = t"
  using inj_of_char [where ?'a = nat] by simp

lemma py_lt_rank:
  "wins_kind a = k \<Longrightarrow> wins_kind b = k \<Longrightarrow> k \<noteq> KOther \<Longrightarrow>
   py_lt a b = Returns True \<longleftrightarrow> wrank a < wrank b"
  by (cases a; cases b)
     (auto simp: py_lt_def wrank_def float_lt_frank str_lt_lex split: if_splits)

lemma scalar_eq_rank:
  "wins_kind a = k \<Longrightarrow> wins_kind b = k \<Longrightarrow> k \<noteq> KOther \<Longrightarrow>
   scalar_eq a b \<longleftrightarrow> wrank a = wrank b"
  by (cases a; cases b)
     (auto simp: scalar_eq_def wrank_def float_eq_frank map_of_char_inj split: if_splits)

lemma key_less_rank:
  assumes "sortable_as k a" and "sortable_as k b"
  shows "key_less a b \<longleftrightarrow> rank a < rank b"
proof (cases "scalar_eq (wins a) (wins b)")
  case True
  with assms show ?thesis
    using scalar_eq_rank [of "wins a" k "wins b"]
      float_lt_frank [of "fpts a" "fpts b"] float_eq_frank [of "fpts a" "fpts b"]
    by (auto simp: key_less_def key_lt_def sort_key_def rank_def sortable_as_def)
next
  case False
  with assms show ?thesis
    using scalar_eq_rank [of "wins a" k "wins b"] py_lt_rank [of "wins a" k "wins b"]
    by (auto simp: key_less_def key_lt_def sort_key_def rank_def sortable_as_def)
qed

lemma lex_le_iff:
  fixes w w' :: "'a::linorder" and f f' :: "'b::linorder"
  shows "(w', f') \<le> (w, f) \<longleftrightarrow> w' < w \<or> (w = w' \<and> (f' < f \<or> f = f'))"
  by auto

lemma ranks_before_rank:
  assumes "sortable_as k a" and "sortable_as k b"
  shows "ranks_before a b \<longleftrightarrow> rank b \<le> rank a"
proof -
  from assms have "scalar_eq (wins a) (wins b) \<longleftrightarrow> wrank (wins a) = wrank (wins b)"
    and "py_lt (wins b) (wins a) = Returns True \<longleftrightarrow> wrank (wins b) < wrank (wins a)"
    and "float_lt (fpts b) (fpts a) \<longleftrightarrow> frank (fpts b) < frank (fpts a)"
    and "float_eq (fpts a) (fpts b) \<longleftrightarrow> frank (fpts a) = frank (fpts b)"
    using scalar_eq_rank [of "wins a" k "wins b"] py_lt_rank [of "wins b" k "wins a"]
      float_lt_frank [of "fpts b" "fpts a"] float_eq_frank [of "fpts a" "fpts b"]
    by (simp_all add: sortable_as_def)
  then show ?thesis
    unfolding ranks_before_def rank_def lex_le_iff by simp
qed

lemma same_key_rank:
  assumes "sortable_as k a" and "sortable_as k b"
  shows "same_key a b \<longleftrightarrow> rank a = rank b"
  using assms scalar_eq_rank [of "wins a" k "wins b"] float_eq_frank [of "fpts a" "fpts b"]
  by (auto simp: same_key_def rank_def sortable_as_def)

lemma set_insert_desc: "set (insert_desc x ys) = insert x (set ys)"
  by (induction ys) auto

lemma mset_insert_desc: "mset (insert_desc x ys) = add_mset x (mset ys)"
  by (induction ys) auto

lemma sorted_insert_desc:
  assumes "sorted_wrt (\<lambda>a b. rank b \<le> rank a) ys"
    and "\<forall>y \<in> set ys. key_less x y \<longleftrightarrow> rank x < rank y"
  shows "sorted_wrt (\<lambda>a b. rank b \<le> rank a) (insert_desc x ys)"
  using assms
proof (induction ys)
  case Nil
  then show ?case by simp
next
  case (Cons y ys)
  then show ?case
    by (auto simp: set_insert_desc)
qed

lemma filter_insert_desc:
  assumes "\<forall>y \<in> set ys. key_less x y \<longleftrightarrow> rank x < rank y"
  shows "filter (\<lambda>e. rank e = r) (insert_desc x ys)
           = (if rank x = r then x # filter (\<lambda>e. rank e = r) ys else filter (\<lambda>e. rank e = r) ys)"
  using assms by (induction ys) auto

lemma stable_sort_desc_Cons: "stable_sort_desc (x # xs) = insert_desc x (stable_sort_desc xs)"
  by (simp add: stable_sort_desc_def)

lemma set_stable_sort_desc: "set (stable_sort_desc xs) = set xs"
  by (induction xs) (simp_all add: stable_sort_desc_Cons set_insert_desc, simp add: stable_sort_desc_def)

lemma mset_stable_sort_desc: "mset (stable_sort_desc xs) = mset xs"
  by (induction xs) (simp_all add: stable_sort_desc_Cons mset_insert_desc, simp add: stable_sort_desc_def)

lemma key_less_rank_sorted:
  assumes "\<forall>y \<in> set (x # xs). sortable_as k y"
  shows "\<forall>y \<in> set (stable_sort_desc xs). key_less x y \<longleftrightarrow> rank x < rank y"
  using assms key_less_rank [of k x] by (simp add: set_stable_sort_desc)

lemma sorted_stable_sort_desc:
  "\<forall>x \<in> set xs. sortable_as k x \<Longrightarrow>
   sorted_wrt (\<lambda>a b. rank b \<le> rank a) (stable_sort_desc xs)"
proof (induction xs)
  case Nil
  show ?case by (simp add: stable_sort_desc_def)
next
  case (Cons x xs)
  from Cons.prems have "sorted_wrt (\<lambda>a b. rank b \<le> rank a) (stable_sort_desc xs)"
    by (simp add: Cons.IH)
  then show ?case
    unfolding stable_sort_desc_Cons
    by (rule sorted_insert_desc) (rule key_less_rank_sorted [OF Cons.prems])
qed

lemma filter_stable_sort_desc:
  "\<forall>x \<in> set xs. sortable_as k x \<Longrightarrow>
   filter (\<lambda>e. rank e = r) (stable_sort_desc xs) = filter (\<lambda>e. rank e = r) xs"
proof (induction xs)
  case Nil
  show ?case by (simp add: stable_sort_desc_def)
next
  case (Cons x xs)
  from Cons.prems have "filter (\<lambda>e. rank e = r) (stable_sort_desc xs) = filter (\<lambda>e. rank e = r) xs"
    by (simp add: Cons.IH)
  then show ?case
    by (simp add: stable_sort_desc_Cons filter_insert_desc [OF key_less_rank_sorted [OF Cons.prems]])
qed

lemma list_sort_Returns:
  assumes "list_sort xs = Returns out"
  shows "(length xs < 2 \<and> out = xs) \<or>
         (\<exists>k. (\<forall>x \<in> set xs. sortable_as k x) \<and> out = stable_sort_desc xs)"
proof (cases "length xs < 2")
  case True
  with assms show ?thesis by (simp add: list_sort_def)
next
  case False
  define k where "k = wins_kind (wins (hd xs))"
  from False have hd: "hd xs \<in> set xs" by (cases xs) auto
  from False assms have ok: "\<forall>x \<in> set xs. wins_kind (wins x) \<noteq> KOther \<and> fpts x \<noteq> NaN"
    by (simp add: list_sort_def list_ex_iff split: if_splits)
  from False assms ok have same: "\<forall>x \<in> set xs. wins_kind (wins x) = k"
    and out: "out = stable_sort_desc xs"
    by (simp_all add: list_sort_def list_ex_iff list_all_iff k_def split: if_splits)
  from ok hd have "k \<noteq> KOther" by (simp add: k_def)
  with ok same have "\<forall>x \<in> set xs. sortable_as k x" by (simp add: sortable_as_def)
  with out show ?thesis by blast
qed

lemma short_list_cases: "length xs < 2 \<Longrightarrow> xs = [] \<or> (\<exists>x. xs = [x])"
  by (cases xs) (auto simp: length_Suc_conv)

lemma list_sort_props:
  assumes "list_sort xs = Returns out"
  shows "mset out = mset xs"
    and "sorted_wrt ranks_before out"
    and "\<forall>a \<in> set out. filter (same_key a) out = filter (same_key a) xs"
proof -
  from list_sort_Returns [OF assms]
  consider (short) "length xs < 2" "out = xs"
    | (sorted) k where "\<forall>x \<in> set xs. sortable_as k x" "out = stable_sort_desc xs"
    by blast
  then have "mset out = mset xs \<and> sorted_wrt ranks_before out
     \<and> (\<forall>a \<in> set out. filter (same_key a) out = filter (same_key a) xs)"
  proof cases
    case short
    then show ?thesis using short_list_cases [of xs] by auto
  next
    case sorted
    have out_ok: "\<forall>x \<in> set out. sortable_as k x"
      using sorted by (simp add: set_stable_sort_desc)
    have "sorted_wrt (\<lambda>a b. rank b \<le> rank a) out"
      using sorted sorted_stable_sort_desc by simp
    then have 2: "sorted_wrt ranks_before out"
      by (rule sorted_wrt_mono_rel [rotated]) (use out_ok ranks_before_rank in blast)
    have 3: "filter (same_key a) out = filter (same_key a) xs" if a: "a \<in> set out" for a
    proof -
      have sk: "same_key a e \<longleftrightarrow> rank e = rank a" if "e \<in> set out" for e
        using same_key_rank [of k a e] a that out_ok by auto
      have same_set: "set xs = set out"
        using sorted by (simp add: set_stable_sort_desc)
      have "filter (same_key a) out = filter (\<lambda>e. rank e = rank a) out"
        by (rule filter_cong) (simp_all add: sk)
      also have "\<dots> = filter (\<lambda>e. rank e = rank a) xs"
        using sorted filter_stable_sort_desc by simp
      also have "\<dots> = filter (same_key a) xs"
        by (rule filter_cong) (simp_all add: sk same_set)
      finally show ?thesis .
    qed
    from sorted 2 3 show ?thesis by (simp add: mset_stable_sort_desc)
  qed
  then show "mset out = mset xs" and "sorted_wrt ranks_before out"
    and "\<forall>a \<in> set out. filter (same_key a) out = filter (same_key a) xs"
    by simp_all
qed

subsection \<open>Responses of the documented shape\<close>


















subsection \<open>The example leagues, evaluated\<close>

lemma abc_http_urls:
  "abc_http rs (league_details_url ''L'') = JsonBody abc_details"
  "abc_http rs (rosters_url ''L'') = JsonBody (JArr rs)"
  "abc_http rs (users_url ''L'') = JsonBody abc_users"
  by (simp_all add: abc_http_def serve_def league_details_url_def rosters_url_def users_url_def)

lemma abc_user_map_built: "build_user_map abc_users = Returns abc_user_map"
  by code_simp

lemma abc_fetch:
  "fetch_sleeper_data (abc_http [roster_A, roster_B, roster_C]) ''L'' = Returns (Some abc_report)"
  by code_simp

lemma mixed_fetch: "fetch_sleeper_data (abc_http mixed_rosters) ''L'' = Returns (Some mixed_report)"
  by code_simp

lemma mixed_entries:
  "roster_entry abc_user_map roster_named = Returns (Some entry_named)"
  "roster_entry abc_user_map roster_bad_score = Returns (Some entry_bad_score)"
  "roster_entry abc_user_map roster_null_name = Returns (Some entry_null_name)"
  "roster_entry abc_user_map roster_stranger = Returns None"
  "roster_entry abc_user_map roster_vacant = Returns None"
  by code_simp+



section \<open>The score of a team\<close>

text \<open>
  Claim C1, as amended. Every entry of the returned standings comes from a roster, and
  its \<open>fpts\<close> follows from the roster's \<^verbatim>\<open>settings.fpts\<close> and \<^verbatim>\<open>settings.fpts_decimal\<close>, a
  missing field counting as the int 0, which converts to 0.0: when \<^verbatim>\<open>float()\<close> converts
  both values, \<open>fpts\<close> is \<^verbatim>\<open>float(fpts) + float(fpts_decimal) / 100\<close>, and it is not
  negative when neither converted value is; when \<^verbatim>\<open>float()\<close> rejects one of them, as it
  rejects \<^verbatim>\<open>None\<close>, the empty string, the string \<^verbatim>\<open>abc\<close>, a list and a dict, \<open>fpts\<close> is
  0.0.
\<close>

theorem entry_fpts:
  assumes "fetch_sleeper_data http lid = Returns (Some rep)"
    and "http (rosters_url lid) = JsonBody rosters" and "py_iter rosters = Returns rs"
    and "http (users_url lid) = JsonBody users" and "build_user_map users = Returns um"
    and "e \<in> set (standings rep)"
  shows "(\<exists>r \<in> set rs. roster_entry um r = Returns (Some e) \<and>
     (case py_float (get_or (get_or r ''settings'' (JObj [])) ''fpts'' (JInt 0)) of
        Returns x \<Rightarrow>
          (case py_float (get_or (get_or r ''settings'' (JObj [])) ''fpts_decimal'' (JInt 0)) of
             Returns y \<Rightarrow>
               fpts e = float_add x (float_div100 y)
               \<and> (float_ge0 x \<and> float_ge0 y \<longrightarrow> float_ge0 (fpts e))
           | _ \<Rightarrow> fpts e = Fin 0)
      | _ \<Rightarrow> fpts e = Fin 0))
    \<and> py_float (JInt 0) = Returns (Fin 0)
    \<and> py_float JNull = Raises TypeError
    \<and> py_float (JStr []) = Raises ValueError
    \<and> py_float (JStr ''abc'') = Raises ValueError
    \<and> (\<forall>xs. py_float (JArr xs) = Raises TypeError)
    \<and> (\<forall>kvs. py_float (JObj kvs) = Raises TypeError)"
proof -
  note run = fetch_Some_named [OF assms(1-5)]
  from list_sort_props(1) [OF run(2)] assms(6) have "e \<in> set (entries_of um rs)"
    by (metis set_mset_mset)
  then obtain r where r: "r \<in> set rs" "roster_entry um r = Returns (Some e)"
    by (auto simp: set_entries_of)
  from r(2) have "compute_fpts (get_or (get_or r ''settings'' (JObj [])) ''fpts'' (JInt 0))
      (get_or (get_or r ''settings'' (JObj [])) ''fpts_decimal'' (JInt 0)) = Returns (fpts e)"
    by (simp add: roster_entry_Some)
  then have "case py_float (get_or (get_or r ''settings'' (JObj [])) ''fpts'' (JInt 0)) of
        Returns x \<Rightarrow>
          (case py_float (get_or (get_or r ''settings'' (JObj [])) ''fpts_decimal'' (JInt 0)) of
             Returns y \<Rightarrow>
               fpts e = float_add x (float_div100 y)
               \<and> (float_ge0 x \<and> float_ge0 y \<longrightarrow> float_ge0 (fpts e))
           | _ \<Rightarrow> fpts e = Fin 0)
      | _ \<Rightarrow> fpts e = Fin 0"
    by (auto simp: compute_fpts_Returns float_add_ge0 float_div100_ge0 split: outcome.splits)
  with r have main: "\<exists>r \<in> set rs. roster_entry um r = Returns (Some e) \<and>
     (case py_float (get_or (get_or r ''settings'' (JObj [])) ''fpts'' (JInt 0)) of
        Returns x \<Rightarrow>
          (case py_float (get_or (get_or r ''settings'' (JObj [])) ''fpts_decimal'' (JInt 0)) of
             Returns y \<Rightarrow>
               fpts e = float_add x (float_div100 y)
               \<and> (float_ge0 x \<and> float_ge0 y \<longrightarrow> float_ge0 (fpts e))
           | _ \<Rightarrow> fpts e = Fin 0)
      | _ \<Rightarrow> fpts e = Fin 0)"
    by blast
  have "py_float (JInt 0) = Returns (Fin 0)"
    by (simp add: float_of_int_def round64_def)
  moreover have "py_float (JStr []) = Raises ValueError"
    by (simp add: float_of_str_def strip_def)
  moreover have "py_float (JStr ''abc'') = Raises ValueError"
    by (simp add: float_samples)
  ultimately show ?thesis
    using main by simp
qed

theorem entry_fpts_witness:
  "fetch_sleeper_data (abc_http mixed_rosters) ''L'' = Returns (Some mixed_report)
   \<and> entry_bad_score \<in> set (standings mixed_report)
   \<and> roster_entry abc_user_map roster_bad_score = Returns (Some entry_bad_score)
   \<and> py_float (get_or (get_or roster_bad_score ''settings'' (JObj [])) ''fpts'' (JInt 0))
       = Raises ValueError
   \<and> fpts entry_bad_score = Fin 0
   \<and> (\<exists>r \<in> set mixed_rosters. roster_entry abc_user_map r = Returns (Some entry_named)
        \<and> fpts entry_named = float_add (Fin 1000) (float_div100 (Fin 50))
        \<and> float_ge0 (fpts entry_named))"
proof -
  have in1: "entry_named \<in> set (standings mixed_report)"
    and in2: "entry_bad_score \<in> set (standings mixed_report)"
    by (simp_all add: mixed_report_def)
  have conv: "py_float (get_or (get_or roster_named ''settings'' (JObj [])) ''fpts'' (JInt 0))
        = Returns (Fin 1000)"
      "py_float (get_or (get_or roster_named ''settings'' (JObj [])) ''fpts_decimal'' (JInt 0))
        = Returns (Fin 50)"
      "py_float (get_or (get_or roster_bad_score ''settings'' (JObj [])) ''fpts'' (JInt 0))
        = Raises ValueError"
    by code_simp+
  have only: "r = roster_named"
    if "r \<in> set mixed_rosters" "roster_entry abc_user_map r = Returns (Some entry_named)" for r
  proof -
    have "entry_named \<noteq> entry_bad_score" "entry_named \<noteq> entry_null_name"
      by (simp_all add: entry_named_def entry_bad_score_def entry_null_name_def mk_entry_def)
    with that show ?thesis
      by (auto simp: mixed_rosters_def mixed_entries)
  qed
  from entry_fpts [OF mixed_fetch abc_http_urls(2) _ abc_http_urls(3) abc_user_map_built in1,
      of mixed_rosters, THEN conjunct1]
  obtain r where r: "r \<in> set mixed_rosters"
      "roster_entry abc_user_map r = Returns (Some entry_named)"
      "case py_float (get_or (get_or r ''settings'' (JObj [])) ''fpts'' (JInt 0)) of
        Returns x \<Rightarrow>
          (case py_float (get_or (get_or r ''settings'' (JObj [])) ''fpts_decimal'' (JInt 0)) of
             Returns y \<Rightarrow>
               fpts entry_named = float_add x (float_div100 y)
               \<and> (float_ge0 x \<and> float_ge0 y \<longrightarrow> float_ge0 (fpts entry_named))
           | _ \<Rightarrow> fpts entry_named = Fin 0)
      | _ \<Rightarrow> fpts entry_named = Fin 0"
    by auto
  have both: "fpts entry_named = float_add (Fin 1000) (float_div100 (Fin 50))
      \<and> (float_ge0 (Fin 1000) \<and> float_ge0 (Fin 50) \<longrightarrow> float_ge0 (fpts entry_named))"
    using r(3) [unfolded only [OF r(1,2)] conv outcome.case] .
  have "float_ge0 (Fin 1000)" and "float_ge0 (Fin 50)"
    by simp_all
  with both have sum: "fpts entry_named = float_add (Fin 1000) (float_div100 (Fin 50))"
    and ge0: "float_ge0 (fpts entry_named)"
    by blast+
  have zero: "fpts entry_bad_score = Fin 0"
    by (simp add: entry_bad_score_def mk_entry_def)
  from r(1,2) sum ge0
  have "\<exists>r \<in> set mixed_rosters. roster_entry abc_user_map r = Returns (Some entry_named)
        \<and> fpts entry_named = float_add (Fin 1000) (float_div100 (Fin 50))
        \<and> float_ge0 (fpts entry_named)"
    by blast
  with in2 mixed_fetch mixed_entries(2) conv(3) zero show ?thesis
    by blast
qed

text \<open>The claim as stated fails where a field is missing: the roster \<open>roster_half\<close> has no
  \<^verbatim>\<open>settings.fpts\<close>, and its entry has 0.5 points, not 0.0.\<close>

theorem missing_fpts_counterexample:
  "field (get_or roster_half ''settings'' (JObj [])) ''fpts'' = None
   \<and> fetch_sleeper_data (abc_http [roster_half]) ''L''
       = Returns (Some \<lparr>league_name = JStr ''Dynasty'',
                        standings = [mk_entry ''Ann'' ''Ann'' (JInt 0) (Fin (1 / 2))]\<rparr>)
   \<and> \<not> float_eq (Fin (1 / 2)) (Fin 0)"
  by code_simp

section \<open>The order of the standings\<close>



section \<open>Rosters without an identifiable owner\<close>



section \<open>Failures\<close>




section \<open>The fields of an entry\<close>



text \<open>
  Claim C9. The fallback needs the key to be absent: when the roster's metadata has the
  key \<^verbatim>\<open>team_name\<close> with the value null or the empty string, the entry's \<open>team_name\<close> is
  that value, whatever the owner's display name is.
\<close>

theorem null_team_name_kept:
  assumes "fetch_sleeper_data http lid = Returns (Some rep)"
    and "http (rosters_url lid) = JsonBody rosters" and "py_iter rosters = Returns rs"
    and "http (users_url lid) = JsonBody users" and "build_user_map users = Returns um"
    and "r \<in> set rs" and "roster_entry um r = Returns (Some e)"
    and "field (get_or r ''metadata'' (JObj [])) ''team_name'' = Some v"
    and "v = JNull \<or> v = JStr []"
  shows "e \<in> set (standings rep) \<and> team_name e = v"
proof -
  note run = fetch_Some_named [OF assms(1-5)]
  from assms(6,7) have "e \<in> set (entries_of um rs)"
    by (auto simp: set_entries_of)
  with list_sort_props(1) [OF run(2)] have "e \<in> set (standings rep)"
    by (metis set_mset_mset)
  moreover from assms(7,8) have "team_name e = v"
    by (simp add: roster_entry_Some get_or_def)
  ultimately show ?thesis by simp
qed

theorem null_team_name_kept_witness:
  "fetch_sleeper_data (abc_http mixed_rosters) ''L'' = Returns (Some mixed_report)
   \<and> field (get_or roster_null_name ''metadata'' (JObj [])) ''team_name'' = Some JNull
   \<and> roster_entry abc_user_map roster_null_name = Returns (Some entry_null_name)
   \<and> entry_null_name \<in> set (standings mixed_report)
   \<and> team_name entry_null_name = JNull
   \<and> owner_name entry_null_name = JStr ''Cy''"
proof -
  have r: "roster_null_name \<in> set mixed_rosters"
    by (simp add: mixed_rosters_def)
  have md: "field (get_or roster_null_name ''metadata'' (JObj [])) ''team_name'' = Some JNull"
    by code_simp
  have "JNull = JNull \<or> JNull = JStr []" by simp
  note kept = null_team_name_kept [OF mixed_fetch abc_http_urls(2) _ abc_http_urls(3)
      abc_user_map_built r mixed_entries(3) md this, simplified]
  have "owner_name entry_null_name = JStr ''Cy''"
    by (simp add: entry_null_name_def mk_entry_def)
  with kept md mixed_fetch mixed_entries(3) show ?thesis by blast
qed

text \<open>
  Claim C10. The counts are copied from the roster's settings as they are: \<open>wins\<close>,
  \<open>losses\<close> and \<open>ties\<close> of the entry are the values under these keys, whatever they are,
  and the int 0 for a missing key; the sort key of the entry is made of that \<open>wins\<close>
  value itself. Two teams whose wins are the strings "10" and "9" are ordered as
  strings, "9" first.
\<close>

theorem counts_copied:
  assumes "fetch_sleeper_data http lid = Returns (Some rep)"
    and "http (rosters_url lid) = JsonBody rosters" and "py_iter rosters = Returns rs"
    and "http (users_url lid) = JsonBody users" and "build_user_map users = Returns um"
    and "r \<in> set rs" and "roster_entry um r = Returns (Some e)"
  shows "e \<in> set (standings rep)
    \<and> wins e = (case field (get_or r ''settings'' (JObj [])) ''wins'' of None \<Rightarrow> JInt 0 | Some v \<Rightarrow> v)
    \<and> losses e = (case field (get_or r ''settings'' (JObj [])) ''losses'' of None \<Rightarrow> JInt 0 | Some v \<Rightarrow> v)
    \<and> ties e = (case field (get_or r ''settings'' (JObj [])) ''ties'' of None \<Rightarrow> JInt 0 | Some v \<Rightarrow> v)
    \<and> fst (sort_key e)
        = (case field (get_or r ''settings'' (JObj [])) ''wins'' of None \<Rightarrow> JInt 0 | Some v \<Rightarrow> v)
    \<and> fetch_sleeper_data (abc_http [roster_s10, roster_s9]) ''L''
        = Returns (Some \<lparr>league_name = JStr ''Dynasty'',
             standings = [mk_entry ''Bob'' ''Bob'' (JStr ''9'') (Fin 900),
                          mk_entry ''Ann'' ''Ann'' (JStr ''10'') (Fin 1000)]\<rparr>)"
proof -
  note run = fetch_Some_named [OF assms(1-5)]
  from assms(6,7) have "e \<in> set (entries_of um rs)"
    by (auto simp: set_entries_of)
  with list_sort_props(1) [OF run(2)] have 1: "e \<in> set (standings rep)"
    by (metis set_mset_mset)
  from assms(7) have 2:
    "wins e = (case field (get_or r ''settings'' (JObj [])) ''wins'' of None \<Rightarrow> JInt 0 | Some v \<Rightarrow> v)"
    "losses e = (case field (get_or r ''settings'' (JObj [])) ''losses'' of None \<Rightarrow> JInt 0 | Some v \<Rightarrow> v)"
    "ties e = (case field (get_or r ''settings'' (JObj [])) ''ties'' of None \<Rightarrow> JInt 0 | Some v \<Rightarrow> v)"
    by (simp_all add: roster_entry_Some get_or_def)
  have 3: "fetch_sleeper_data (abc_http [roster_s10, roster_s9]) ''L''
        = Returns (Some \<lparr>league_name = JStr ''Dynasty'',
             standings = [mk_entry ''Bob'' ''Bob'' (JStr ''9'') (Fin 900),
                          mk_entry ''Ann'' ''Ann'' (JStr ''10'') (Fin 1000)]\<rparr>)"
    by code_simp
  from 1 2 3 show ?thesis
    by (simp add: sort_key_def)
qed

theorem counts_copied_witness:
  "fetch_sleeper_data (abc_http mixed_rosters) ''L'' = Returns (Some mixed_report)
   \<and> roster_entry abc_user_map roster_null_name = Returns (Some entry_null_name)
   \<and> field (get_or roster_null_name ''settings'' (JObj [])) ''wins'' = Some (JInt 9)
   \<and> field (get_or roster_null_name ''settings'' (JObj [])) ''losses'' = None
   \<and> wins entry_null_name = JInt 9
   \<and> losses entry_null_name = JInt 0
   \<and> fst (sort_key entry_null_name) = JInt 9"
proof -
  have r: "roster_null_name \<in> set mixed_rosters"
    by (simp add: mixed_rosters_def)
  have st: "field (get_or roster_null_name ''settings'' (JObj [])) ''wins'' = Some (JInt 9)"
      "field (get_or roster_null_name ''settings'' (JObj [])) ''losses'' = None"
    by code_simp+
  note copied = counts_copied [OF mixed_fetch abc_http_urls(2) _ abc_http_urls(3)
      abc_user_map_built r mixed_entries(3), simplified]
  from copied st have "wins entry_null_name = JInt 9" "losses entry_null_name = JInt 0"
      "fst (sort_key entry_null_name) = JInt 9"
    by simp_all
  with st mixed_fetch mixed_entries(3) show ?thesis by blast
qed

section \<open>The summary\<close>




text \<open>
  Claim C5. Without a league-data object, or with one whose standings are empty,
  \<^verbatim>\<open>generate_site_update_summary\<close> returns the fixed message and sends nothing to the
  generative service.
\<close>

theorem no_data_no_call:
  assumes "league_data_obj = None \<or> (\<exists>d. league_data_obj = Some d \<and> standings d = [])"
  shows "generate_site_update_summary repr generate_content league_data_obj season
     = (''Could not fetch league data to generate a summary.'', [])"
proof (cases league_data_obj)
  case None
  then show ?thesis by (simp add: generate_site_update_summary_def)
next
  case (Some d)
  with assms have "standings d = []" by simp
  with Some show ?thesis by (simp add: generate_site_update_summary_def)
qed

theorem no_data_no_call_witness:
  "generate_site_update_summary no_repr echo_service None ''2025''
     = (''Could not fetch league data to generate a summary.'', [])
   \<and> standings \<lparr>league_name = JStr ''Dynasty'', standings = []\<rparr> = []
   \<and> generate_site_update_summary no_repr echo_service
       (Some \<lparr>league_name = JStr ''Dynasty'', standings = []\<rparr>) ''2025''
     = (''Could not fetch league data to generate a summary.'', [])"
  using no_data_no_call [of None no_repr echo_service "''2025''"]
    no_data_no_call [of "Some \<lparr>league_name = JStr ''Dynasty'', standings = []\<rparr>"
      no_repr echo_service "''2025''"]
  by simp

text \<open>
  Claim C7. With standings that are not empty the function returns a string in every
  case: the text of the response, or, when the call of the service or the reading of
  the response raises, the message \<^verbatim>\<open>Error generating content with GenAI:\<close> followed by
  the text of the exception.
\<close>

theorem fault_is_caught:
  assumes "standings d \<noteq> []"
  shows "fst (generate_site_update_summary repr generate_content (Some d) season)
     = (case generate_content (build_prompt repr (league_name d) season (standings d)) of
          Fault e \<Rightarrow> ''Error generating content with GenAI: '' @ e
        | Done response \<Rightarrow>
            (case response_text response of
               Fault e \<Rightarrow> ''Error generating content with GenAI: '' @ e
             | Done t \<Rightarrow> t))"
proof (cases "generate_content (build_prompt repr (league_name d) season (standings d))")
  case (Fault e)
  with assms show ?thesis
    by (simp add: generate_site_update_summary_def call_service_def)
next
  case (Done response)
  with assms show ?thesis
    by (cases "response_text response")
       (simp_all add: generate_site_update_summary_def call_service_def)
qed

theorem fault_is_caught_witness:
  "standings abc_report \<noteq> []
   \<and> fst (generate_site_update_summary no_repr failing_service (Some abc_report) ''2025'')
       = ''Error generating content with GenAI: quota exceeded''
   \<and> fst (generate_site_update_summary no_repr blocked_service (Some abc_report) ''2025'')
       = ''Error generating content with GenAI: no valid part''
   \<and> fst (generate_site_update_summary no_repr echo_service (Some abc_report) ''2025'')
       = ''A fine season.''"
proof -
  have ne: "standings abc_report \<noteq> []"
    by (simp add: abc_report_def)
  from fault_is_caught [OF ne, of no_repr failing_service "''2025''"]
    fault_is_caught [OF ne, of no_repr blocked_service "''2025''"]
    fault_is_caught [OF ne, of no_repr echo_service "''2025''"] ne
  show ?thesis
    by (simp add: failing_service_def blocked_service_def echo_service_def)
qed



end
